theory Spec2Isabelle
  imports Main
begin

section \<open>Strings\<close>

text \<open>
  JavaScript strings are modelled as \<open>string\<close>. The three string operations the
  extension uses are \<^verbatim>\<open>String.prototype.includes\<close>, \<^verbatim>\<open>toLowerCase\<close>
  (on the ASCII letters) and the conversion of an integer to its decimal text inside a
  template literal.
\<close>

fun starts_with :: "string \<Rightarrow> string \<Rightarrow> bool" where
  "starts_with s [] = True"
| "starts_with [] (p # ps) = False"
| "starts_with (c # cs) (p # ps) = (c = p \<and> starts_with cs ps)"

fun str_includes :: "string \<Rightarrow> string \<Rightarrow> bool" where
  "str_includes [] needle = (needle = [])"
| "str_includes (c # cs) needle = (starts_with (c # cs) needle \<or> str_includes cs needle)"

definition lower_char :: "char \<Rightarrow> char" where
  "lower_char c =
     (case map_of (zip ''ABCDEFGHIJKLMNOPQRSTUVWXYZ'' ''abcdefghijklmnopqrstuvwxyz'') c of
        Some l \<Rightarrow> l
      | None \<Rightarrow> c)"

definition toLowerCase :: "string \<Rightarrow> string" where
  "toLowerCase s = map lower_char s"

definition digit_char :: "nat \<Rightarrow> char" where
  "digit_char d = ''0123456789'' ! d"

function string_of_nat :: "nat \<Rightarrow> string" where
  "string_of_nat n =
     (if n < 10 then [digit_char n]
      else string_of_nat (n div 10) @ [digit_char (n mod 10)])"
  by pat_completeness auto
termination
  by (relation "measure id") auto

declare string_of_nat.simps [simp del]

text \<open>\<^verbatim>\<open>`${Date.now()}`\<close>: the decimal text of an integer number of milliseconds.\<close>

definition number_text :: "int \<Rightarrow> string" where
  "number_text t = (if t < 0 then CHR ''-'' # string_of_nat (nat (- t)) else string_of_nat (nat t))"

section \<open>The page: address, clock and document tree\<close>

datatype node =
    Element (tagName: string) (classList: "string list")
            (attributes: "(string \<times> string) list") (childNodes: "node list")
  | Text string
  | Comment string

text \<open>\<^verbatim>\<open>node.nodeType\<close>: 1 for an element, 3 for text, 8 for a comment.\<close>

fun nodeType :: "node \<Rightarrow> nat" where
  "nodeType (Element t cl at ks) = 1"
| "nodeType (Text s) = 3"
| "nodeType (Comment s) = 8"

text \<open>All nodes below a node, in document order (the node itself excluded).\<close>

fun descendants :: "node \<Rightarrow> node list" where
  "descendants (Element t cl at ks) = concat (map (\<lambda>k. k # descendants k) ks)"
| "descendants (Text s) = []"
| "descendants (Comment s) = []"

fun textContent :: "node \<Rightarrow> string" where
  "textContent (Element t cl at ks) = concat (map textContent ks)"
| "textContent (Text s) = s"
| "textContent (Comment s) = []"

definition getAttribute :: "node \<Rightarrow> string \<Rightarrow> string option" where
  "getAttribute n a = (case n of Element t cl at ks \<Rightarrow> map_of at a | _ \<Rightarrow> None)"

text \<open>
  The selectors that occur in the source: \<^verbatim>\<open>.name\<close>, \<^verbatim>\<open>[attr="value"]\<close> and
  \<^verbatim>\<open>[attr]\<close>.
\<close>

datatype selector = ClassSel string | AttrEqSel string string | AttrSel string

fun matches :: "selector \<Rightarrow> node \<Rightarrow> bool" where
  "matches (ClassSel c) (Element t cl at ks) = (c \<in> set cl)"
| "matches (AttrEqSel a v) (Element t cl at ks) = (map_of at a = Some v)"
| "matches (AttrSel a) (Element t cl at ks) = (map_of at a \<noteq> None)"
| "matches sel (Text s) = False"
| "matches sel (Comment s) = False"

definition querySelectorAll :: "node \<Rightarrow> selector \<Rightarrow> node list" where
  "querySelectorAll n sel = filter (matches sel) (descendants n)"

definition querySelector :: "node \<Rightarrow> selector \<Rightarrow> node option" where
  "querySelector n sel = (case querySelectorAll n sel of [] \<Rightarrow> None | e # es \<Rightarrow> Some e)"

text \<open>
  What the content script reads from its page: \<^verbatim>\<open>window.location\<close>, the two clock
  readings \<^verbatim>\<open>new Date().toISOString()\<close> and \<^verbatim>\<open>Date.now()\<close>, and the document.
\<close>

record page =
  hostname :: string
  pathname :: string
  href :: string
  date_iso :: string
  date_now :: int
  documentElement :: node

text \<open>\<^verbatim>\<open>document.querySelectorAll\<close> ranges over every element of the document.\<close>

definition document_querySelectorAll :: "page \<Rightarrow> selector \<Rightarrow> node list" where
  "document_querySelectorAll pg sel =
     filter (matches sel) (documentElement pg # descendants (documentElement pg))"

section \<open>JSON values, HTTP requests and their outcomes\<close>

datatype json =
    JNull | JBool bool | JNum int | JStr string
  | JArr "json list" | JObj "(string \<times> json) list"

text \<open>
  A \<^verbatim>\<open>fetch\<close> call. The field \<open>body\<close> holds the value handed to
  \<^verbatim>\<open>JSON.stringify\<close>.
\<close>

record http_request =
  req_url :: string
  http_method :: string
  headers :: "(string \<times> string) list"
  body :: json

text \<open>
  How a \<^verbatim>\<open>fetch\<close> settles: the promise rejects (network failure), or it resolves
  to a response with a status code whose \<^verbatim>\<open>response.json()\<close> either yields a
  value or rejects (\<open>None\<close>).
\<close>

datatype fetch_outcome = NetworkFailure | HttpResponse nat "json option"

text \<open>\<^verbatim>\<open>response.ok\<close>\<close>

definition response_ok :: "nat \<Rightarrow> bool" where
  "response_ok st = (200 \<le> st \<and> st \<le> 299)"

text \<open>A \<^verbatim>\<open>chrome.runtime\<close> message, with the fields the listeners read.\<close>

record request =
  action :: string
  req_text :: string
  enabled :: bool

section \<open>content\_script.js\<close>

definition CORTEX_SERVER :: string where
  "CORTEX_SERVER = ''http://localhost:5000''"

text \<open>The \<^verbatim>\<open>onMessage\<close> listener: the new value of \<^verbatim>\<open>isCapturing\<close> and the reply.\<close>

definition content_onMessage :: "bool \<Rightarrow> request \<Rightarrow> bool \<times> json option" where
  "content_onMessage isCapturing req =
     (if action req = ''toggle''
      then (enabled req, Some (JObj [(''status'', JStr ''ok'')]))
      else (isCapturing, None))"

definition detectPlatform :: "string \<Rightarrow> string" where
  "detectPlatform host =
     (if str_includes host ''chat.openai.com'' then ''chatgpt''
      else if str_includes host ''claude.ai'' then ''claude''
      else if str_includes host ''perplexity.ai'' then ''perplexity''
      else ''unknown'')"

text \<open>The character class \<^verbatim>\<open>[a-zA-Z0-9-]\<close>.\<close>

definition is_id_char :: "char \<Rightarrow> bool" where
  "is_id_char c =
     (let n = (of_char c :: nat) in
        (97 \<le> n \<and> n \<le> 122) \<or> (65 \<le> n \<and> n \<le> 90) \<or> (48 \<le> n \<and> n \<le> 57) \<or> n = 45)"

text \<open>
  The regular expression \<^verbatim>\<open>/\/c\/([a-zA-Z0-9-]+)/\<close>: \<open>match_here\<close> tries it at the
  start of a string and returns the captured group, \<open>url_match\<close> returns the group of the
  leftmost position where it matches.
\<close>

definition match_here :: "string \<Rightarrow> string option" where
  "match_here s =
     (if starts_with s ''/c/'' \<and> takeWhile is_id_char (drop 3 s) \<noteq> []
      then Some (takeWhile is_id_char (drop 3 s))
      else None)"

fun url_match :: "string \<Rightarrow> string option" where
  "url_match [] = None"
| "url_match (c # cs) =
     (case match_here (c # cs) of Some g \<Rightarrow> Some g | None \<Rightarrow> url_match cs)"

record message =
  role :: "string option"
  content :: string

record snapshot =
  platform :: string
  url :: string
  timestamp :: string
  conversation_id :: string
  messages :: "message list"

text \<open>
  The \<^verbatim>\<open>chatgpt\<close> branch: the content of one message element, and the
  \<^verbatim>\<open>forEach\<close> over the elements found.
\<close>

definition chatgpt_content :: "node \<Rightarrow> string" where
  "chatgpt_content msg =
     (case querySelector msg (ClassSel ''markdown'') of
        None \<Rightarrow> []
      | Some e \<Rightarrow> textContent e)"

fun chatgpt_messages :: "node list \<Rightarrow> message list" where
  "chatgpt_messages [] = []"
| "chatgpt_messages (msg # rest) =
     (let r = getAttribute msg ''data-message-author-role'';
          c = chatgpt_content msg
      in if c \<noteq> [] then \<lparr>role = r, content = c\<rparr> # chatgpt_messages rest
         else chatgpt_messages rest)"

text \<open>
  The \<^verbatim>\<open>claude\<close> branch: the sender text of one message element, lower-cased, with
  its default; the content of the element; and the \<^verbatim>\<open>forEach\<close>.
\<close>

definition claude_sender :: "node \<Rightarrow> string" where
  "claude_sender msg =
     (case querySelector msg (AttrEqSel ''data-testid'' ''message-sender'') of
        None \<Rightarrow> ''unknown''
      | Some e \<Rightarrow>
          (let s = toLowerCase (textContent e) in if s = [] then ''unknown'' else s))"

definition claude_content :: "node \<Rightarrow> string" where
  "claude_content msg =
     (case querySelector msg (AttrEqSel ''data-testid'' ''message-text'') of
        None \<Rightarrow> []
      | Some e \<Rightarrow> textContent e)"

fun claude_messages :: "node list \<Rightarrow> message list" where
  "claude_messages [] = []"
| "claude_messages (msg # rest) =
     (let r = claude_sender msg;
          c = claude_content msg
      in if c \<noteq> []
         then \<lparr>role = Some (if str_includes r ''you'' then ''user'' else ''assistant''),
               content = c\<rparr> # claude_messages rest
         else claude_messages rest)"

definition extractConversationContext :: "string \<Rightarrow> page \<Rightarrow> snapshot" where
  "extractConversationContext plat pg =
     \<lparr>platform = plat,
      url = href pg,
      timestamp = date_iso pg,
      conversation_id =
        (case url_match (pathname pg) of
           Some g \<Rightarrow> g
         | None \<Rightarrow> ''conv_'' @ number_text (date_now pg)),
      messages =
        (if plat = ''chatgpt''
         then chatgpt_messages (document_querySelectorAll pg (AttrSel ''data-message-author-role''))
         else if plat = ''claude''
         then claude_messages (document_querySelectorAll pg (AttrEqSel ''data-testid'' ''message''))
         else [])\<rparr>"

definition message_json :: "message \<Rightarrow> json" where
  "message_json m =
     JObj [(''role'', (case role m of None \<Rightarrow> JNull | Some r \<Rightarrow> JStr r)),
           (''content'', JStr (content m))]"

definition snapshot_json :: "snapshot \<Rightarrow> json" where
  "snapshot_json s =
     JObj [(''platform'', JStr (platform s)),
           (''url'', JStr (url s)),
           (''timestamp'', JStr (timestamp s)),
           (''conversation_id'', JStr (conversation_id s)),
           (''messages'', JArr (map message_json (messages s)))]"

text \<open>\<^verbatim>\<open>sendToCortex\<close>: the request it issues, and what it returns once that settles.\<close>

definition sendToCortex_fetch :: "snapshot \<Rightarrow> http_request" where
  "sendToCortex_fetch data =
     \<lparr>req_url = CORTEX_SERVER @ ''/ingest'',
      http_method = ''POST'',
      headers = [(''Content-Type'', ''application/json'')],
      body = snapshot_json data\<rparr>"

definition sendToCortex_result :: "fetch_outcome \<Rightarrow> json" where
  "sendToCortex_result outcome =
     (case outcome of
        NetworkFailure \<Rightarrow> JNull
      | HttpResponse st parsed \<Rightarrow>
          (if \<not> response_ok st then JNull
           else (case parsed of None \<Rightarrow> JNull | Some result \<Rightarrow> result)))"

text \<open>The selector table of the observer callback.\<close>

definition selectors :: "string \<Rightarrow> selector option" where
  "selectors plat =
     (if plat = ''chatgpt'' then Some (ClassSel ''markdown'')
      else if plat = ''claude'' then Some (AttrEqSel ''data-testid'' ''message-text'')
      else if plat = ''perplexity'' then Some (ClassSel ''prose'')
      else None)"

record mutation =
  addedNodes :: "node list"

text \<open>
  \<^verbatim>\<open>node.querySelector(selector) || (node.matches(selector) ? node : null)\<close>, for a
  node of type 1.
\<close>

definition responseElement :: "selector \<Rightarrow> node \<Rightarrow> node option" where
  "responseElement sel n =
     (if nodeType n = 1
      then (case querySelector n sel of
              Some e \<Rightarrow> Some e
            | None \<Rightarrow> (if matches sel n then Some n else None))
      else None)"

text \<open>
  The observer callback, as the list of arguments with which it calls
  \<^verbatim>\<open>sendToCortex\<close>, in call order. The callback runs to completion on one page:
  the address, the document and the clock readings are the same for every extraction of
  one run.
\<close>

definition observer_callback :: "bool \<Rightarrow> page \<Rightarrow> mutation list \<Rightarrow> snapshot list" where
  "observer_callback isCapturing pg mutations =
     (if \<not> isCapturing then []
      else
        (let plat = detectPlatform (hostname pg) in
         case selectors plat of
           None \<Rightarrow> []
         | Some sel \<Rightarrow>
             concat (map (\<lambda>m.
               concat (map (\<lambda>n.
                 (case responseElement sel n of
                    Some e \<Rightarrow> [extractConversationContext plat pg]
                  | None \<Rightarrow> [])) (addedNodes m))) mutations)))"

text \<open>
  What page-context code can do towards the outside: issue a \<^verbatim>\<open>fetch\<close> itself, or
  post a message to the background context with \<^verbatim>\<open>chrome.runtime.sendMessage\<close>.
\<close>

datatype page_effect = Fetch http_request | RuntimeSendMessage request

definition observer_effects :: "bool \<Rightarrow> page \<Rightarrow> mutation list \<Rightarrow> page_effect list" where
  "observer_effects isCapturing pg mutations =
     map (\<lambda>data. Fetch (sendToCortex_fetch data)) (observer_callback isCapturing pg mutations)"

text \<open>
  The content script as a state machine over its only variable, \<^verbatim>\<open>isCapturing\<close>
  (initially \<open>False\<close>): an event is a runtime message or a batch of mutations.
\<close>

datatype event = Message request | Mutations page "mutation list"

fun step :: "bool \<Rightarrow> event \<Rightarrow> bool \<times> snapshot list" where
  "step isCapturing (Message req) = (fst (content_onMessage isCapturing req), [])"
| "step isCapturing (Mutations pg ms) = (isCapturing, observer_callback isCapturing pg ms)"

text \<open>A batch that adds an element which is, or contains, a response marker of the page's platform.\<close>

definition qualifying :: "page \<Rightarrow> mutation list \<Rightarrow> bool" where
  "qualifying pg ms =
     (case selectors (detectPlatform (hostname pg)) of
        None \<Rightarrow> False
      | Some sel \<Rightarrow> list_ex (\<lambda>m. list_ex (\<lambda>n. responseElement sel n \<noteq> None) (addedNodes m)) ms)"

text \<open>Runs of the machine: the final flag and all calls of \<^verbatim>\<open>sendToCortex\<close>, in order.\<close>

definition is_toggle :: "event \<Rightarrow> bool" where
  "is_toggle e = (case e of Message req \<Rightarrow> action req = ''toggle'' | Mutations pg ms \<Rightarrow> False)"

fun run :: "bool \<Rightarrow> event list \<Rightarrow> bool \<times> snapshot list" where
  "run isCapturing [] = (isCapturing, [])"
| "run isCapturing (e # es) =
     (case step isCapturing e of
        (isCapturing', sent) \<Rightarrow>
          (case run isCapturing' es of
             (isCapturing'', sent') \<Rightarrow> (isCapturing'', sent @ sent')))"

section \<open>background.js\<close>

text \<open>
  The \<^verbatim>\<open>onMessage\<close> listener of the background context: whether it returns
  \<^verbatim>\<open>true\<close> (the reply channel stays open) and the \<^verbatim>\<open>fetch\<close> it starts, if any.
\<close>

definition background_onMessage :: "request \<Rightarrow> bool \<times> http_request option" where
  "background_onMessage req =
     (if action req = ''enrichPrompt''
      then (True,
            Some \<lparr>req_url = ''http://127.0.0.1:8000/process_interaction'',
                  http_method = ''POST'',
                  headers = [(''Content-Type'', ''application/json'')],
                  body = JObj [(''text'', JStr (req_text req)),
                               (''platform'', JStr ''ChromeExtension_v2'')]\<rparr>)
      else if action req = ''pingServer'' then (True, None)
      else (False, None))"

text \<open>The promise chain of the \<^verbatim>\<open>enrichPrompt\<close> branch: the argument of \<^verbatim>\<open>sendResponse\<close>.\<close>

definition enrichPrompt_response :: "fetch_outcome \<Rightarrow> json" where
  "enrichPrompt_response outcome =
     (case outcome of
        NetworkFailure \<Rightarrow> JObj [(''status'', JStr ''error'')]
      | HttpResponse st parsed \<Rightarrow>
          (case parsed of
             None \<Rightarrow> JObj [(''status'', JStr ''error'')]
           | Some data \<Rightarrow> JObj [(''status'', JStr ''ok''), (''data'', data)]))"

text \<open>
  The reply the listener delivers for a message, given how its \<^verbatim>\<open>fetch\<close> settles;
  \<open>None\<close> when no path calls \<^verbatim>\<open>sendResponse\<close>.
\<close>

definition background_reply :: "request \<Rightarrow> fetch_outcome \<Rightarrow> json option" where
  "background_reply req outcome =
     (if action req = ''enrichPrompt'' then Some (enrichPrompt_response outcome) else None)"

section \<open>Example inputs\<close>

text \<open>The conversation page of the end-to-end scenario, and a ChatGPT conversation address.\<close>

definition example_claude_page :: page where
  "example_claude_page =
     \<lparr>hostname = ''claude.ai'',
      pathname = ''/chat/xyz789'',
      href = ''https://claude.ai/chat/xyz789'',
      date_iso = ''2023-11-14T22:13:20.000Z'',
      date_now = 1700000000000,
      documentElement =
        Element ''html'' [] []
          [Element ''body'' [] []
             [Element ''div'' [] [(''data-testid'', ''message'')]
                [Element ''span'' [] [(''data-testid'', ''message-sender'')] [Text ''Claude''],
                 Element ''div'' [] [(''data-testid'', ''message-text'')] [Text ''Hello world'']]]]\<rparr>"

definition example_chatgpt_page :: page where
  "example_chatgpt_page =
     \<lparr>hostname = ''chat.openai.com'',
      pathname = ''/c/abc-123'',
      href = ''https://chat.openai.com/c/abc-123'',
      date_iso = ''2023-11-14T22:13:20.000Z'',
      date_now = 1700000000000,
      documentElement =
        Element ''html'' [] []
          [Element ''body'' [] []
             [Element ''div'' [] [(''data-message-author-role'', ''tool'')]
                [Element ''div'' [''markdown''] [] [Text ''42'']]]]\<rparr>"

text \<open>A conversation page whose only message comes from a sender called Moderator.\<close>

definition example_moderator_page :: page where
  "example_moderator_page =
     \<lparr>hostname = ''claude.ai'',
      pathname = ''/chat/xyz789'',
      href = ''https://claude.ai/chat/xyz789'',
      date_iso = ''2023-11-14T22:13:20.000Z'',
      date_now = 1700000000000,
      documentElement =
        Element ''html'' [] []
          [Element ''body'' [] []
             [Element ''div'' [] [(''data-testid'', ''message'')]
                [Element ''span'' [] [(''data-testid'', ''message-sender'')] [Text ''Moderator''],
                 Element ''div'' [] [(''data-testid'', ''message-text'')] [Text ''Notice'']]]]\<rparr>"

text \<open>A ChatGPT page with a response marker that lies in no message element.\<close>

definition example_unmarked_page :: page where
  "example_unmarked_page =
     \<lparr>hostname = ''chat.openai.com'',
      pathname = ''/'',
      href = ''https://chat.openai.com/'',
      date_iso = ''2023-11-14T22:13:20.000Z'',
      date_now = 1700000000000,
      documentElement =
        Element ''html'' [] []
          [Element ''body'' [] [] [Element ''div'' [''markdown''] [] [Text ''Hello'']]]\<rparr>"

text \<open>Mutation batches that add the response marker of the pages above.\<close>

definition example_claude_batch :: "mutation list" where
  "example_claude_batch =
     [\<lparr>addedNodes =
         [Element ''div'' [] [(''data-testid'', ''message'')]
            [Element ''span'' [] [(''data-testid'', ''message-sender'')] [Text ''Claude''],
             Element ''div'' [] [(''data-testid'', ''message-text'')] [Text ''Hello world'']]]\<rparr>]"

definition example_unmarked_batch :: "mutation list" where
  "example_unmarked_batch =
     [\<lparr>addedNodes = [Element ''div'' [''markdown''] [] [Text ''Hello'']]\<rparr>]"

text \<open>The control messages of the popup, and the requests to the background listener.\<close>

definition toggle_on :: request where
  "toggle_on = \<lparr>action = ''toggle'', req_text = [], enabled = True\<rparr>"

definition toggle_off :: request where
  "toggle_off = \<lparr>action = ''toggle'', req_text = [], enabled = False\<rparr>"

definition popup_ping :: request where
  "popup_ping =
     \<lparr>action = ''pingServer'', req_text = ''This is a test from the extension'', enabled = False\<rparr>"

definition example_enrich :: request where
  "example_enrich = \<lparr>action = ''enrichPrompt'', req_text = ''hello'', enabled = False\<rparr>"

section \<open>Substring search\<close>

lemma starts_with_iff: "starts_with s p \<longleftrightarrow> (\<exists>r. s = p @ r)"
  by (induction s p rule: starts_with.induct) auto

lemma str_includes_iff: "str_includes h n \<longleftrightarrow> (\<exists>p s. h = p @ n @ s)"
proof (induction h)
  case Nil
  show ?case by simp
next
  case (Cons c cs)
  show ?case
  proof
    assume "str_includes (c # cs) n"
    then consider "starts_with (c # cs) n" | "str_includes cs n" by auto
    then show "\<exists>p s. c # cs = p @ n @ s"
    proof cases
      case 1
      then obtain r where "c # cs = n @ r" by (auto simp: starts_with_iff)
      then have "c # cs = [] @ n @ r" by simp
      then show ?thesis by blast
    next
      case 2
      then obtain p s where "cs = p @ n @ s" using Cons.IH by blast
      then have "c # cs = (c # p) @ n @ s" by simp
      then show ?thesis by blast
    qed
  next
    assume "\<exists>p s. c # cs = p @ n @ s"
    then obtain p s where eq: "c # cs = p @ n @ s" by blast
    show "str_includes (c # cs) n"
    proof (cases p)
      case Nil
      with eq have "starts_with (c # cs) n" by (auto simp: starts_with_iff)
      then show ?thesis by simp
    next
      case (Cons a p')
      with eq have "cs = p' @ n @ s" by simp
      then have "str_includes cs n" using Cons.IH by blast
      then show ?thesis by simp
    qed
  qed
qed

section \<open>Platform detection\<close>

text \<open>The registry is tried in the order of the source; the first entry found decides.\<close>

lemma detectPlatform_first_match:
  "detectPlatform host =
     (if (\<exists>p s. host = p @ ''chat.openai.com'' @ s) then ''chatgpt''
      else if (\<exists>p s. host = p @ ''claude.ai'' @ s) then ''claude''
      else if (\<exists>p s. host = p @ ''perplexity.ai'' @ s) then ''perplexity''
      else ''unknown'')"
  by (simp add: detectPlatform_def str_includes_iff)

text \<open>
  C9. \<open>detectPlatform\<close> depends on the host name only and never fails. When the host name
  contains the host of a supported platform, the result is the tag of a supported platform
  whose host it contains; when it contains the host of exactly one, the result is that
  platform's tag; when it contains none, the result is \<open>unknown\<close>.
\<close>

theorem detectPlatform_registry_match:
  "((\<exists>p s. host = p @ ''chat.openai.com'' @ s) \<or> (\<exists>p s. host = p @ ''claude.ai'' @ s) \<or>
    (\<exists>p s. host = p @ ''perplexity.ai'' @ s)
      \<longrightarrow> (detectPlatform host = ''chatgpt'' \<and> (\<exists>p s. host = p @ ''chat.openai.com'' @ s)) \<or>
          (detectPlatform host = ''claude'' \<and> (\<exists>p s. host = p @ ''claude.ai'' @ s)) \<or>
          (detectPlatform host = ''perplexity'' \<and> (\<exists>p s. host = p @ ''perplexity.ai'' @ s))) \<and>
   ((\<exists>p s. host = p @ ''chat.openai.com'' @ s) \<and> \<not> (\<exists>p s. host = p @ ''claude.ai'' @ s) \<and>
    \<not> (\<exists>p s. host = p @ ''perplexity.ai'' @ s) \<longrightarrow> detectPlatform host = ''chatgpt'') \<and>
   (\<not> (\<exists>p s. host = p @ ''chat.openai.com'' @ s) \<and> (\<exists>p s. host = p @ ''claude.ai'' @ s) \<and>
    \<not> (\<exists>p s. host = p @ ''perplexity.ai'' @ s) \<longrightarrow> detectPlatform host = ''claude'') \<and>
   (\<not> (\<exists>p s. host = p @ ''chat.openai.com'' @ s) \<and> \<not> (\<exists>p s. host = p @ ''claude.ai'' @ s) \<and>
    (\<exists>p s. host = p @ ''perplexity.ai'' @ s) \<longrightarrow> detectPlatform host = ''perplexity'') \<and>
   (\<not> (\<exists>p s. host = p @ ''chat.openai.com'' @ s) \<and> \<not> (\<exists>p s. host = p @ ''claude.ai'' @ s) \<and>
    \<not> (\<exists>p s. host = p @ ''perplexity.ai'' @ s) \<longrightarrow> detectPlatform host = ''unknown'')"
  unfolding detectPlatform_first_match by simp

theorem detectPlatform_registry_match_witness:
  "detectPlatform ''chat.openai.com'' = ''chatgpt'' \<and>
   detectPlatform ''claude.ai'' = ''claude'' \<and>
   detectPlatform ''www.perplexity.ai'' = ''perplexity'' \<and>
   detectPlatform ''example.org'' = ''unknown'' \<and>
   detectPlatform ''perplexity.ai.claude.ai'' \<noteq> ''unknown''"
proof -
  have a: "(\<exists>p s. ''chat.openai.com'' = p @ ''chat.openai.com'' @ s) \<and>
           \<not> (\<exists>p s. ''chat.openai.com'' = p @ ''claude.ai'' @ s) \<and>
           \<not> (\<exists>p s. ''chat.openai.com'' = p @ ''perplexity.ai'' @ s)"
    unfolding str_includes_iff [symmetric] by simp
  have b: "\<not> (\<exists>p s. ''claude.ai'' = p @ ''chat.openai.com'' @ s) \<and>
           (\<exists>p s. ''claude.ai'' = p @ ''claude.ai'' @ s) \<and>
           \<not> (\<exists>p s. ''claude.ai'' = p @ ''perplexity.ai'' @ s)"
    unfolding str_includes_iff [symmetric] by simp
  have c: "\<not> (\<exists>p s. ''www.perplexity.ai'' = p @ ''chat.openai.com'' @ s) \<and>
           \<not> (\<exists>p s. ''www.perplexity.ai'' = p @ ''claude.ai'' @ s) \<and>
           (\<exists>p s. ''www.perplexity.ai'' = p @ ''perplexity.ai'' @ s)"
    unfolding str_includes_iff [symmetric] by simp
  have d: "\<not> (\<exists>p s. ''example.org'' = p @ ''chat.openai.com'' @ s) \<and>
           \<not> (\<exists>p s. ''example.org'' = p @ ''claude.ai'' @ s) \<and>
           \<not> (\<exists>p s. ''example.org'' = p @ ''perplexity.ai'' @ s)"
    unfolding str_includes_iff [symmetric] by simp
  have e: "(\<exists>p s. ''perplexity.ai.claude.ai'' = p @ ''chat.openai.com'' @ s) \<or>
           (\<exists>p s. ''perplexity.ai.claude.ai'' = p @ ''claude.ai'' @ s) \<or>
           (\<exists>p s. ''perplexity.ai.claude.ai'' = p @ ''perplexity.ai'' @ s)"
    unfolding str_includes_iff [symmetric] by simp
  have 1: "detectPlatform ''chat.openai.com'' = ''chatgpt''"
    by (rule detectPlatform_registry_match [THEN conjunct2, THEN conjunct1, THEN mp, OF a])
  have 2: "detectPlatform ''claude.ai'' = ''claude''"
    by (rule detectPlatform_registry_match
          [THEN conjunct2, THEN conjunct2, THEN conjunct1, THEN mp, OF b])
  have 3: "detectPlatform ''www.perplexity.ai'' = ''perplexity''"
    by (rule detectPlatform_registry_match
          [THEN conjunct2, THEN conjunct2, THEN conjunct2, THEN conjunct1, THEN mp, OF c])
  have 4: "detectPlatform ''example.org'' = ''unknown''"
    by (rule detectPlatform_registry_match
          [THEN conjunct2, THEN conjunct2, THEN conjunct2, THEN conjunct2, THEN mp, OF d])
  have "detectPlatform ''perplexity.ai.claude.ai'' = ''chatgpt'' \<or>
        detectPlatform ''perplexity.ai.claude.ai'' = ''claude'' \<or>
        detectPlatform ''perplexity.ai.claude.ai'' = ''perplexity''"
    using detectPlatform_registry_match [THEN conjunct1, THEN mp, OF e]
    by (elim disjE conjE) simp_all
  then have 5: "detectPlatform ''perplexity.ai.claude.ai'' \<noteq> ''unknown''"
    by (elim disjE) simp_all
  from 1 2 3 4 5 show ?thesis by (intro conjI)
qed

text \<open>A host name that contains two registry hosts gets the tag of the earlier entry.\<close>

lemma detectPlatform_overlap_example:
  "str_includes ''perplexity.ai.claude.ai'' ''perplexity.ai'' \<and>
   str_includes ''perplexity.ai.claude.ai'' ''claude.ai'' \<and>
   detectPlatform ''perplexity.ai.claude.ai'' = ''claude''"
  by (simp add: detectPlatform_def)

section \<open>Conversation identifier\<close>

lemma string_of_nat_small: "n < 10 \<Longrightarrow> string_of_nat n = [digit_char n]"
  by (simp add: string_of_nat.simps)

lemma string_of_nat_large:
  "\<not> n < 10 \<Longrightarrow> string_of_nat n = string_of_nat (n div 10) @ [digit_char (n mod 10)]"
  by (subst string_of_nat.simps) simp

lemma string_of_nat_not_Nil: "string_of_nat n \<noteq> []"
  by (subst string_of_nat.simps) simp

lemma match_here_Nil: "match_here [] = None"
  by (simp add: match_here_def)

lemma match_here_c_segment:
  assumes "seg \<noteq> []" and "list_all is_id_char seg" and "rest = [] \<or> \<not> is_id_char (hd rest)"
  shows "match_here (''/c/'' @ seg @ rest) = Some seg"
proof -
  have "takeWhile is_id_char rest = []"
    using assms(3) by (cases rest) auto
  moreover have "takeWhile is_id_char (seg @ rest) = seg @ takeWhile is_id_char rest"
    using assms(2) by (intro takeWhile_append2) (simp add: list_all_iff)
  ultimately have "takeWhile is_id_char (seg @ rest) = seg" by simp
  with assms(1) show ?thesis by (simp add: match_here_def)
qed

lemma match_here_Some_iff:
  "match_here s = Some g \<longleftrightarrow>
     (\<exists>rest. s = ''/c/'' @ g @ rest \<and> g \<noteq> [] \<and> list_all is_id_char g \<and>
             (rest = [] \<or> \<not> is_id_char (hd rest)))"
proof
  assume m: "match_here s = Some g"
  then have sw: "starts_with s ''/c/''" and g: "g = takeWhile is_id_char (drop 3 s)" and ne: "g \<noteq> []"
    by (auto simp: match_here_def split: if_splits)
  from sw obtain r where s: "s = ''/c/'' @ r" by (auto simp: starts_with_iff)
  then have g': "g = takeWhile is_id_char r" using g by simp
  have "r = g @ dropWhile is_id_char r" by (simp add: g')
  moreover have "list_all is_id_char g"
    unfolding g' list_all_iff by (auto dest: set_takeWhileD)
  moreover have "dropWhile is_id_char r = [] \<or> \<not> is_id_char (hd (dropWhile is_id_char r))"
    using hd_dropWhile by blast
  ultimately show "\<exists>rest. s = ''/c/'' @ g @ rest \<and> g \<noteq> [] \<and> list_all is_id_char g \<and>
             (rest = [] \<or> \<not> is_id_char (hd rest))"
    using s ne by metis
next
  assume "\<exists>rest. s = ''/c/'' @ g @ rest \<and> g \<noteq> [] \<and> list_all is_id_char g \<and>
             (rest = [] \<or> \<not> is_id_char (hd rest))"
  then show "match_here s = Some g" using match_here_c_segment by blast
qed

lemma url_match_skip:
  "(\<forall>k<length pre. match_here (drop k (pre @ suf)) = None) \<Longrightarrow> url_match (pre @ suf) = url_match suf"
proof (induction pre)
  case Nil
  show ?case by simp
next
  case (Cons c pre)
  from Cons.prems have h0: "match_here (c # pre @ suf) = None" by fastforce
  have "\<forall>k<length pre. match_here (drop k (pre @ suf)) = None"
  proof (intro allI impI)
    fix k assume "k < length pre"
    then have "Suc k < length (c # pre)" by simp
    with Cons.prems have "match_here (drop (Suc k) ((c # pre) @ suf)) = None" by blast
    then show "match_here (drop k (pre @ suf)) = None" by simp
  qed
  with Cons.IH have "url_match (pre @ suf) = url_match suf" by blast
  with h0 show ?case by simp
qed

lemma url_match_here: "match_here s = Some g \<Longrightarrow> url_match s = Some g"
  by (cases s) (simp_all add: match_here_Nil)

lemma url_match_no_position:
  "(\<forall>k<length p. match_here (drop k p) = None) \<Longrightarrow> url_match p = None"
  using url_match_skip [of p "[]"] by simp

lemma url_match_None_positions:
  "url_match p = None \<Longrightarrow> k < length p \<Longrightarrow> match_here (drop k p) = None"
proof (induction p arbitrary: k)
  case Nil
  then show ?case by simp
next
  case (Cons c cs)
  from Cons.prems(1) have h: "match_here (c # cs) = None" and t: "url_match cs = None"
    by (auto split: option.splits)
  show ?case
  proof (cases k)
    case 0
    with h show ?thesis by simp
  next
    case (Suc j)
    with Cons.prems(2) have "j < length cs" by simp
    with Cons.IH t Suc show ?thesis by simp
  qed
qed

lemma url_match_Some_group:
  "url_match p = Some g \<Longrightarrow> g \<noteq> [] \<and> list_all is_id_char g"
proof (induction p)
  case Nil
  then show ?case by simp
next
  case (Cons c cs)
  then show ?case
    by (auto split: option.splits simp: match_here_Some_iff)
qed

lemma slash_not_id_char: "\<not> is_id_char (CHR ''/'')"
  by (simp add: is_id_char_def)

lemma match_here_id_char_first: "is_id_char c \<Longrightarrow> match_here (c # cs) = None"
  using slash_not_id_char by (auto simp: match_here_def)

lemma url_match_id_chars: "list_all is_id_char s \<Longrightarrow> url_match s = None"
  by (induction s) (simp_all add: match_here_id_char_first)

lemma match_here_slash_id_chars:
  assumes "list_all is_id_char s"
  shows "match_here (CHR ''/'' # s) = None"
proof (cases s)
  case Nil
  then show ?thesis by (simp add: match_here_def)
next
  case (Cons a t)
  show ?thesis
  proof (cases t)
    case Nil
    with Cons show ?thesis by (simp add: match_here_def)
  next
    case (Cons b u)
    with assms \<open>s = a # t\<close> have "is_id_char b" by simp
    then have "b \<noteq> CHR ''/''" using slash_not_id_char by auto
    with Cons \<open>s = a # t\<close> show ?thesis by (simp add: match_here_def)
  qed
qed

lemma url_match_chat_path:
  assumes "list_all is_id_char seg"
  shows "url_match (''/chat/'' @ seg) = None"
proof -
  have "match_here (''/chat/'' @ seg) = None" by (simp add: match_here_def)
  moreover have "match_here (''chat/'' @ seg) = None" by (simp add: match_here_def)
  moreover have "match_here (''hat/'' @ seg) = None" by (simp add: match_here_def)
  moreover have "match_here (''at/'' @ seg) = None" by (simp add: match_here_def)
  moreover have "match_here (''t/'' @ seg) = None" by (simp add: match_here_def)
  moreover have "match_here (''/'' @ seg) = None"
    using match_here_slash_id_chars [OF assms] by simp
  moreover have "url_match seg = None" using assms by (rule url_match_id_chars)
  ultimately show ?thesis by simp
qed

lemma number_text_not_Nil: "number_text t \<noteq> []"
  by (simp add: number_text_def string_of_nat_not_Nil)

text \<open>
  C3 (as amended). The identifier segment is the one the expression \<^verbatim>\<open>/\/c\/([a-zA-Z0-9-]+)/\<close>
  captures: the longest run of letters, digits and hyphens after the leftmost \<open>/c/\<close>
  that is followed by such a character. When the path has one, \<open>conversation_id\<close> is that
  run; when no position of the path matches, it is \<open>conv_\<close> followed by the decimal
  text of \<^verbatim>\<open>Date.now()\<close>. A path \<open>/chat/<id>\<close> has no such segment and gets the
  synthetic identifier. The identifier is never empty.
\<close>

theorem conversation_id_c_segment_or_clock:
  "(pathname pg = pre @ ''/c/'' @ seg @ rest \<and> seg \<noteq> [] \<and> list_all is_id_char seg \<and>
    (rest = [] \<or> \<not> is_id_char (hd rest)) \<and>
    (\<forall>k<length pre. match_here (drop k (pathname pg)) = None)
      \<longrightarrow> conversation_id (extractConversationContext plat pg) = seg) \<and>
   ((\<forall>k<length (pathname pg). match_here (drop k (pathname pg)) = None)
      \<longrightarrow> conversation_id (extractConversationContext plat pg) = ''conv_'' @ number_text (date_now pg)) \<and>
   (pathname pg = ''/chat/'' @ seg \<and> list_all is_id_char seg
      \<longrightarrow> conversation_id (extractConversationContext plat pg) = ''conv_'' @ number_text (date_now pg)) \<and>
   conversation_id (extractConversationContext plat pg) \<noteq> []"
proof (intro conjI impI)
  assume a: "pathname pg = pre @ ''/c/'' @ seg @ rest \<and> seg \<noteq> [] \<and> list_all is_id_char seg \<and>
    (rest = [] \<or> \<not> is_id_char (hd rest)) \<and>
    (\<forall>k<length pre. match_here (drop k (pathname pg)) = None)"
  then have "match_here (''/c/'' @ seg @ rest) = Some seg"
    by (intro match_here_c_segment) auto
  then have "url_match (''/c/'' @ seg @ rest) = Some seg" by (rule url_match_here)
  moreover have "url_match (pre @ ''/c/'' @ seg @ rest) = url_match (''/c/'' @ seg @ rest)"
    using a by (intro url_match_skip) auto
  ultimately have "url_match (pathname pg) = Some seg" using a by simp
  then show "conversation_id (extractConversationContext plat pg) = seg"
    by (simp add: extractConversationContext_def)
next
  assume "\<forall>k<length (pathname pg). match_here (drop k (pathname pg)) = None"
  then have "url_match (pathname pg) = None" by (rule url_match_no_position)
  then show "conversation_id (extractConversationContext plat pg) = ''conv_'' @ number_text (date_now pg)"
    by (simp add: extractConversationContext_def)
next
  assume "pathname pg = ''/chat/'' @ seg \<and> list_all is_id_char seg"
  then have "url_match (pathname pg) = None" using url_match_chat_path by simp
  then show "conversation_id (extractConversationContext plat pg) = ''conv_'' @ number_text (date_now pg)"
    by (simp add: extractConversationContext_def)
next
  show "conversation_id (extractConversationContext plat pg) \<noteq> []"
  proof (cases "url_match (pathname pg)")
    case None
    then show ?thesis by (simp add: extractConversationContext_def)
  next
    case (Some g)
    then have "g \<noteq> []" using url_match_Some_group by blast
    with Some show ?thesis by (simp add: extractConversationContext_def)
  qed
qed

lemma number_text_example: "number_text 1700000000000 = ''1700000000000''"
  by (simp add: number_text_def string_of_nat_small string_of_nat_large digit_char_def)

text \<open>
  For the address \<open>https://claude.ai/chat/xyz789\<close>, captured at millisecond
  1700000000000, the identifier is \<open>conv_1700000000000\<close>.
\<close>

theorem conversation_id_claude_chat_counterexample:
  "conversation_id (extractConversationContext ''claude'' example_claude_page) = ''conv_1700000000000'' \<and>
   conversation_id (extractConversationContext ''claude'' example_claude_page) \<noteq> ''xyz789''"
  by (simp add: extractConversationContext_def example_claude_page_def match_here_def
      number_text_example)


theorem conversation_id_c_segment_or_clock_witness:
  "conversation_id (extractConversationContext ''chatgpt'' example_chatgpt_page) = ''abc-123'' \<and>
   conversation_id (extractConversationContext ''chatgpt''
       (example_chatgpt_page\<lparr>pathname := ''/g/g-xyz/c/abc-123''\<rparr>)) = ''abc-123'' \<and>
   conversation_id (extractConversationContext ''claude'' example_claude_page)
     = ''conv_'' @ number_text 1700000000000"
proof -
  have seg: "list_all is_id_char ''abc-123''" by (simp add: is_id_char_def)
  have a: "pathname example_chatgpt_page = [] @ ''/c/'' @ ''abc-123'' @ [] \<and> ''abc-123'' \<noteq> [] \<and>
      list_all is_id_char ''abc-123'' \<and> (([]::string) = [] \<or> \<not> is_id_char (hd [])) \<and>
      (\<forall>k<length ([]::string). match_here (drop k (pathname example_chatgpt_page)) = None)"
    using seg by (simp add: example_chatgpt_page_def)
  have 1: "conversation_id (extractConversationContext ''chatgpt'' example_chatgpt_page) = ''abc-123''"
    by (rule conversation_id_c_segment_or_clock [THEN conjunct1, THEN mp, OF a])
  have pre: "\<forall>k<length ''/g/g-xyz''. match_here (drop k ''/g/g-xyz/c/abc-123'') = None"
    by (simp add: match_here_def All_less_Suc)
  have ag: "pathname (example_chatgpt_page\<lparr>pathname := ''/g/g-xyz/c/abc-123''\<rparr>)
        = ''/g/g-xyz'' @ ''/c/'' @ ''abc-123'' @ [] \<and> ''abc-123'' \<noteq> [] \<and>
      list_all is_id_char ''abc-123'' \<and> (([]::string) = [] \<or> \<not> is_id_char (hd [])) \<and>
      (\<forall>k<length ''/g/g-xyz''. match_here (drop k
          (pathname (example_chatgpt_page\<lparr>pathname := ''/g/g-xyz/c/abc-123''\<rparr>))) = None)"
    using seg pre by simp
  have g1: "conversation_id (extractConversationContext ''chatgpt''
      (example_chatgpt_page\<lparr>pathname := ''/g/g-xyz/c/abc-123''\<rparr>)) = ''abc-123''"
    by (rule conversation_id_c_segment_or_clock [THEN conjunct1, THEN mp, OF ag])
  have b: "pathname example_claude_page = ''/chat/'' @ ''xyz789'' \<and> list_all is_id_char ''xyz789''"
    by (simp add: example_claude_page_def is_id_char_def)
  have 2: "conversation_id (extractConversationContext ''claude'' example_claude_page)
      = ''conv_'' @ number_text (date_now example_claude_page)"
    by (rule conversation_id_c_segment_or_clock
          [THEN conjunct2, THEN conjunct2, THEN conjunct1, THEN mp, OF b])
  have "url_match (pathname example_claude_page) = None"
    by (simp add: example_claude_page_def match_here_def)
  then have c: "\<forall>k<length (pathname example_claude_page).
      match_here (drop k (pathname example_claude_page)) = None"
    using url_match_None_positions by blast
  have 3: "conversation_id (extractConversationContext ''claude'' example_claude_page)
      = ''conv_'' @ number_text (date_now example_claude_page)"
    by (rule conversation_id_c_segment_or_clock [THEN conjunct2, THEN conjunct1, THEN mp, OF c])
  have "date_now example_claude_page = 1700000000000" by (simp add: example_claude_page_def)
  with 1 g1 2 3 show ?thesis by simp
qed

section \<open>Extraction and the observer\<close>

lemma chatgpt_messages_eq:
  "chatgpt_messages es =
     map (\<lambda>msg. \<lparr>role = getAttribute msg ''data-message-author-role'', content = chatgpt_content msg\<rparr>)
         (filter (\<lambda>msg. chatgpt_content msg \<noteq> []) es)"
  by (induction es) (simp_all add: Let_def)

lemma claude_messages_eq:
  "claude_messages es =
     map (\<lambda>msg. \<lparr>role = Some (if str_includes (claude_sender msg) ''you'' then ''user'' else ''assistant''),
                  content = claude_content msg\<rparr>)
         (filter (\<lambda>msg. claude_content msg \<noteq> []) es)"
  by (induction es) (simp_all add: Let_def)

lemma getAttribute_selected:
  assumes "e \<in> set (document_querySelectorAll pg (AttrSel a))"
  shows "getAttribute e a \<noteq> None"
proof -
  from assms have "matches (AttrSel a) e"
    unfolding document_querySelectorAll_def set_filter by blast
  then show ?thesis by (cases e) (simp_all add: getAttribute_def)
qed

lemma observer_callback_replicate:
  assumes "selectors (detectPlatform (hostname pg)) = Some sel"
  shows "observer_callback True pg ms =
           replicate (length (filter (\<lambda>n. responseElement sel n \<noteq> None) (concat (map addedNodes ms))))
                     (extractConversationContext (detectPlatform (hostname pg)) pg)"
proof -
  have inner: "concat (map (\<lambda>n. case responseElement sel n of Some e \<Rightarrow> [x] | None \<Rightarrow> []) ns)
      = replicate (length (filter (\<lambda>n. responseElement sel n \<noteq> None) ns)) x" for ns and x :: snapshot
    by (induction ns) (auto split: option.splits)
  have outer: "concat (map (\<lambda>m. concat (map (\<lambda>n. case responseElement sel n of Some e \<Rightarrow> [x] | None \<Rightarrow> [])
                 (addedNodes m))) ms)
      = replicate (length (filter (\<lambda>n. responseElement sel n \<noteq> None) (concat (map addedNodes ms)))) x"
    for x :: snapshot
    by (induction ms) (simp_all add: inner replicate_add)
  show ?thesis using assms by (simp add: observer_callback_def outer)
qed

lemma observer_callback_disabled: "observer_callback False pg ms = []"
  by (simp add: observer_callback_def)

lemma observer_callback_no_selector:
  "selectors (detectPlatform (hostname pg)) = None \<Longrightarrow> observer_callback c pg ms = []"
  by (simp add: observer_callback_def)

lemma observer_callback_members:
  "s \<in> set (observer_callback c pg ms) \<Longrightarrow> s = extractConversationContext (detectPlatform (hostname pg)) pg"
proof (cases "selectors (detectPlatform (hostname pg))")
  case None
  assume "s \<in> set (observer_callback c pg ms)"
  with None show ?thesis by (simp add: observer_callback_no_selector)
next
  case (Some sel)
  assume m: "s \<in> set (observer_callback c pg ms)"
  show ?thesis
  proof (cases c)
    case True
    with m Some show ?thesis by (simp add: observer_callback_replicate)
  next
    case False
    with m show ?thesis by (simp add: observer_callback_disabled)
  qed
qed

lemma qualifying_relays:
  assumes "qualifying pg ms"
  shows "observer_callback True pg ms \<noteq> []"
proof -
  from assms obtain sel where sel: "selectors (detectPlatform (hostname pg)) = Some sel"
    and ex: "list_ex (\<lambda>m. list_ex (\<lambda>n. responseElement sel n \<noteq> None) (addedNodes m)) ms"
    by (auto simp: qualifying_def split: option.splits)
  from ex obtain m n where "m \<in> set ms" "n \<in> set (addedNodes m)" "responseElement sel n \<noteq> None"
    by (auto simp: list_ex_iff)
  then have "n \<in> set (filter (\<lambda>n. responseElement sel n \<noteq> None) (concat (map addedNodes ms)))"
    by auto
  then have "filter (\<lambda>n. responseElement sel n \<noteq> None) (concat (map addedNodes ms)) \<noteq> []"
    by (metis empty_iff empty_set)
  then show ?thesis using sel by (simp add: observer_callback_replicate)
qed

lemma not_qualifying_no_relay:
  assumes "\<not> qualifying pg ms"
  shows "observer_callback c pg ms = []"
proof (cases "selectors (detectPlatform (hostname pg))")
  case None
  then show ?thesis by (rule observer_callback_no_selector)
next
  case (Some sel)
  with assms have "\<not> list_ex (\<lambda>m. list_ex (\<lambda>n. responseElement sel n \<noteq> None) (addedNodes m)) ms"
    by (simp add: qualifying_def)
  then have "filter (\<lambda>n. responseElement sel n \<noteq> None) (concat (map addedNodes ms)) = []"
    by (auto simp: list_ex_iff filter_empty_conv)
  then show ?thesis using Some
    by (cases c) (simp_all add: observer_callback_replicate observer_callback_disabled)
qed

lemma selectors_unknown: "selectors ''unknown'' = None"
  by (simp add: selectors_def)

lemma example_claude_platform: "detectPlatform (hostname example_claude_page) = ''claude''"
  by (simp add: example_claude_page_def detectPlatform_def)

lemma example_unmarked_platform: "detectPlatform (hostname example_unmarked_page) = ''chatgpt''"
  by (simp add: example_unmarked_page_def detectPlatform_def)

lemma example_claude_qualifying: "qualifying example_claude_page example_claude_batch"
  by (simp add: qualifying_def example_claude_platform selectors_def example_claude_batch_def
      responseElement_def querySelector_def querySelectorAll_def)

lemma example_unmarked_qualifying: "qualifying example_unmarked_page example_unmarked_batch"
  by (simp add: qualifying_def example_unmarked_platform selectors_def example_unmarked_batch_def
      responseElement_def querySelector_def querySelectorAll_def)

lemma example_claude_messages:
  "messages (extractConversationContext ''claude'' example_claude_page)
     = [\<lparr>role = Some ''assistant'', content = ''Hello world''\<rparr>]"
  by (simp add: extractConversationContext_def example_claude_page_def
      document_querySelectorAll_def claude_sender_def claude_content_def querySelector_def
      querySelectorAll_def toLowerCase_def lower_char_def)

lemma example_moderator_messages:
  "messages (extractConversationContext ''claude'' example_moderator_page)
     = [\<lparr>role = Some ''assistant'', content = ''Notice''\<rparr>]"
  by (simp add: extractConversationContext_def example_moderator_page_def
      document_querySelectorAll_def claude_sender_def claude_content_def querySelector_def
      querySelectorAll_def toLowerCase_def lower_char_def)

lemma example_chatgpt_messages:
  "messages (extractConversationContext ''chatgpt'' example_chatgpt_page)
     = [\<lparr>role = Some ''tool'', content = ''42''\<rparr>]"
  by (simp add: extractConversationContext_def example_chatgpt_page_def
      document_querySelectorAll_def chatgpt_content_def getAttribute_def querySelector_def
      querySelectorAll_def)

lemma example_unmarked_messages:
  "messages (extractConversationContext ''chatgpt'' example_unmarked_page) = []"
  by (simp add: extractConversationContext_def example_unmarked_page_def
      document_querySelectorAll_def)

lemma example_unmarked_relay:
  "observer_callback True example_unmarked_page example_unmarked_batch
     = [extractConversationContext ''chatgpt'' example_unmarked_page]"
  by (simp add: observer_callback_def example_unmarked_platform selectors_def
      example_unmarked_batch_def responseElement_def querySelector_def querySelectorAll_def)

lemma example_claude_relay:
  "observer_callback True example_claude_page example_claude_batch
     = [extractConversationContext ''claude'' example_claude_page]"
  by (simp add: observer_callback_def example_claude_platform selectors_def
      example_claude_batch_def responseElement_def querySelector_def querySelectorAll_def)

lemma example_claude_snapshot:
  "extractConversationContext ''claude'' example_claude_page =
     \<lparr>platform = ''claude'', url = ''https://claude.ai/chat/xyz789'',
      timestamp = ''2023-11-14T22:13:20.000Z'', conversation_id = ''conv_1700000000000'',
      messages = [\<lparr>role = Some ''assistant'', content = ''Hello world''\<rparr>]\<rparr>"
  by (simp add: extractConversationContext_def example_claude_page_def
      document_querySelectorAll_def claude_sender_def claude_content_def querySelector_def
      querySelectorAll_def toLowerCase_def lower_char_def match_here_def number_text_example)

lemma extract_messages_unknown: "messages (extractConversationContext ''unknown'' pg) = []"
  by (simp add: extractConversationContext_def)

lemma extract_messages_chatgpt:
  "messages (extractConversationContext ''chatgpt'' pg) =
     map (\<lambda>msg. \<lparr>role = getAttribute msg ''data-message-author-role'', content = chatgpt_content msg\<rparr>)
         (filter (\<lambda>msg. chatgpt_content msg \<noteq> [])
            (document_querySelectorAll pg (AttrSel ''data-message-author-role'')))"
  by (simp add: extractConversationContext_def chatgpt_messages_eq)

lemma extract_messages_claude:
  "messages (extractConversationContext ''claude'' pg) =
     map (\<lambda>msg. \<lparr>role = Some (if str_includes (claude_sender msg) ''you'' then ''user'' else ''assistant''),
                  content = claude_content msg\<rparr>)
         (filter (\<lambda>msg. claude_content msg \<noteq> [])
            (document_querySelectorAll pg (AttrEqSel ''data-testid'' ''message'')))"
  by (simp add: extractConversationContext_def claude_messages_eq)

lemma qualifying_relay_set:
  assumes "qualifying pg ms"
  shows "set (observer_callback True pg ms) = {extractConversationContext (detectPlatform (hostname pg)) pg}"
proof -
  from assms have "observer_callback True pg ms \<noteq> []" by (rule qualifying_relays)
  then obtain s where "s \<in> set (observer_callback True pg ms)"
    by (cases "observer_callback True pg ms") auto
  moreover have "\<And>x. x \<in> set (observer_callback True pg ms)
      \<Longrightarrow> x = extractConversationContext (detectPlatform (hostname pg)) pg"
    by (rule observer_callback_members)
  ultimately show ?thesis by blast
qed

text \<open>
  C1 (as amended). \<open>extractConversationContext\<close> has no null result: for every platform
  tag and page it returns a snapshot. The snapshot's messages are empty for the tag
  \<open>unknown\<close>, and for \<open>chatgpt\<close> and \<open>claude\<close> exactly when no message element of the
  page has non-empty content. The observer does not extract at all on a page whose platform
  is \<open>unknown\<close>; on a qualifying batch it hands the extractor's snapshot to
  \<^verbatim>\<open>sendToCortex\<close> as it is, empty or not.
\<close>

theorem extract_returns_snapshot_even_when_empty:
  "messages (extractConversationContext ''unknown'' pg) = [] \<and>
   ((messages (extractConversationContext ''chatgpt'' pg) = []) =
      (\<forall>e \<in> set (document_querySelectorAll pg (AttrSel ''data-message-author-role'')).
          chatgpt_content e = [])) \<and>
   ((messages (extractConversationContext ''claude'' pg) = []) =
      (\<forall>e \<in> set (document_querySelectorAll pg (AttrEqSel ''data-testid'' ''message'')).
          claude_content e = [])) \<and>
   (detectPlatform (hostname pg) = ''unknown'' \<longrightarrow> observer_callback c pg ms = []) \<and>
   (qualifying pg ms \<longrightarrow>
      set (observer_callback True pg ms) = {extractConversationContext (detectPlatform (hostname pg)) pg})"
proof (intro conjI impI)
  show "messages (extractConversationContext ''unknown'' pg) = []"
    by (rule extract_messages_unknown)
  show "(messages (extractConversationContext ''chatgpt'' pg) = []) =
      (\<forall>e \<in> set (document_querySelectorAll pg (AttrSel ''data-message-author-role'')).
          chatgpt_content e = [])"
    by (simp add: extract_messages_chatgpt filter_empty_conv)
  show "(messages (extractConversationContext ''claude'' pg) = []) =
      (\<forall>e \<in> set (document_querySelectorAll pg (AttrEqSel ''data-testid'' ''message'')).
          claude_content e = [])"
    by (simp add: extract_messages_claude filter_empty_conv)
next
  assume "detectPlatform (hostname pg) = ''unknown''"
  then have "selectors (detectPlatform (hostname pg)) = None" by (simp add: selectors_unknown)
  then show "observer_callback c pg ms = []" by (rule observer_callback_no_selector)
next
  assume "qualifying pg ms"
  then show "set (observer_callback True pg ms)
      = {extractConversationContext (detectPlatform (hostname pg)) pg}"
    by (rule qualifying_relay_set)
qed

theorem extract_returns_snapshot_even_when_empty_witness:
  "messages (extractConversationContext ''chatgpt'' example_unmarked_page) = [] \<and>
   set (observer_callback True example_unmarked_page example_unmarked_batch)
     = {extractConversationContext ''chatgpt'' example_unmarked_page} \<and>
   observer_callback True (example_claude_page\<lparr>hostname := ''example.org''\<rparr>) example_claude_batch = []"
proof -
  have none: "\<forall>e \<in> set (document_querySelectorAll example_unmarked_page
      (AttrSel ''data-message-author-role'')). chatgpt_content e = []"
    by (simp add: example_unmarked_page_def document_querySelectorAll_def)
  have 1: "messages (extractConversationContext ''chatgpt'' example_unmarked_page) = []"
    using extract_returns_snapshot_even_when_empty
            [of example_unmarked_page True example_unmarked_batch, THEN conjunct2, THEN conjunct1]
          none
    by (rule iffD2)
  have 2: "set (observer_callback True example_unmarked_page example_unmarked_batch)
      = {extractConversationContext (detectPlatform (hostname example_unmarked_page)) example_unmarked_page}"
    by (rule extract_returns_snapshot_even_when_empty
          [THEN conjunct2, THEN conjunct2, THEN conjunct2, THEN conjunct2, THEN mp,
           OF example_unmarked_qualifying])
  have u: "detectPlatform (hostname (example_claude_page\<lparr>hostname := ''example.org''\<rparr>)) = ''unknown''"
    by (simp add: detectPlatform_def)
  have 3: "observer_callback True (example_claude_page\<lparr>hostname := ''example.org''\<rparr>)
      example_claude_batch = []"
    by (rule extract_returns_snapshot_even_when_empty
          [THEN conjunct2, THEN conjunct2, THEN conjunct2, THEN conjunct1, THEN mp, OF u])
  from 1 2 3 show ?thesis by (simp add: example_unmarked_platform)
qed

text \<open>
  Extraction for the tag \<open>unknown\<close> yields a snapshot with no messages, and on a ChatGPT
  page whose response marker lies in no message element the observer relays one snapshot
  whose messages are empty.
\<close>

theorem extract_empty_snapshot_counterexample:
  "messages (extractConversationContext ''unknown'' example_claude_page) = [] \<and>
   map messages (observer_callback True example_unmarked_page example_unmarked_batch) = [[]]"
  by (simp add: extract_messages_unknown example_unmarked_relay example_unmarked_messages)

text \<open>
  C7 (as amended). Elements whose content is empty are skipped, and the others are kept in
  document order. In the \<open>claude\<close> branch the role is \<open>user\<close> when the lower-cased
  sender text contains \<open>you\<close> and \<open>assistant\<close> otherwise, so it is never
  \<open>unknown\<close>. In the \<open>chatgpt\<close> branch the role is the value of the attribute
  \<^verbatim>\<open>data-message-author-role\<close>, passed on as it is.
\<close>

theorem role_and_content_derivation:
  "messages (extractConversationContext ''claude'' pg) =
     map (\<lambda>msg. \<lparr>role = Some (if str_includes (claude_sender msg) ''you'' then ''user'' else ''assistant''),
                  content = claude_content msg\<rparr>)
         (filter (\<lambda>msg. claude_content msg \<noteq> [])
            (document_querySelectorAll pg (AttrEqSel ''data-testid'' ''message''))) \<and>
   messages (extractConversationContext ''chatgpt'' pg) =
     map (\<lambda>msg. \<lparr>role = getAttribute msg ''data-message-author-role'', content = chatgpt_content msg\<rparr>)
         (filter (\<lambda>msg. chatgpt_content msg \<noteq> [])
            (document_querySelectorAll pg (AttrSel ''data-message-author-role''))) \<and>
   (\<forall>m \<in> set (messages (extractConversationContext ''claude'' pg)).
      role m = Some ''user'' \<or> role m = Some ''assistant'') \<and>
   (\<forall>m \<in> set (messages (extractConversationContext ''chatgpt'' pg)). role m \<noteq> None) \<and>
   (\<forall>m \<in> set (messages (extractConversationContext plat pg)). content m \<noteq> [])"
proof (intro conjI ballI)
  show "messages (extractConversationContext ''claude'' pg) =
     map (\<lambda>msg. \<lparr>role = Some (if str_includes (claude_sender msg) ''you'' then ''user'' else ''assistant''),
                  content = claude_content msg\<rparr>)
         (filter (\<lambda>msg. claude_content msg \<noteq> [])
            (document_querySelectorAll pg (AttrEqSel ''data-testid'' ''message'')))"
    by (rule extract_messages_claude)
  show "messages (extractConversationContext ''chatgpt'' pg) =
     map (\<lambda>msg. \<lparr>role = getAttribute msg ''data-message-author-role'', content = chatgpt_content msg\<rparr>)
         (filter (\<lambda>msg. chatgpt_content msg \<noteq> [])
            (document_querySelectorAll pg (AttrSel ''data-message-author-role'')))"
    by (rule extract_messages_chatgpt)
next
  fix m assume "m \<in> set (messages (extractConversationContext ''claude'' pg))"
  then obtain e where "role m = Some (if str_includes (claude_sender e) ''you'' then ''user'' else ''assistant'')"
    unfolding extract_messages_claude by auto
  then show "role m = Some ''user'' \<or> role m = Some ''assistant''"
    by (cases "str_includes (claude_sender e) ''you''") simp_all
next
  fix m assume "m \<in> set (messages (extractConversationContext ''chatgpt'' pg))"
  then obtain e where "e \<in> set (document_querySelectorAll pg (AttrSel ''data-message-author-role''))"
    and "role m = getAttribute e ''data-message-author-role''"
    unfolding extract_messages_chatgpt by auto
  then show "role m \<noteq> None" using getAttribute_selected by simp
next
  fix m assume m: "m \<in> set (messages (extractConversationContext plat pg))"
  consider "plat = ''chatgpt''" | "plat = ''claude''" | "plat \<noteq> ''chatgpt''" "plat \<noteq> ''claude''"
    by blast
  then show "content m \<noteq> []"
  proof cases
    case 1
    with m show ?thesis unfolding 1 extract_messages_chatgpt by auto
  next
    case 2
    with m show ?thesis unfolding 2 extract_messages_claude by auto
  next
    case 3
    with m show ?thesis by (simp add: extractConversationContext_def)
  qed
qed

theorem role_and_content_derivation_witness:
  "\<lparr>role = Some ''assistant'', content = ''Hello world''\<rparr>
     \<in> set (messages (extractConversationContext ''claude'' example_claude_page)) \<and>
   role \<lparr>role = Some ''assistant'', content = ''Hello world''\<rparr> = Some ''assistant'' \<and>
   content \<lparr>role = Some ''assistant'', content = ''Hello world''\<rparr> = ''Hello world'' \<and>
   \<lparr>role = Some ''tool'', content = ''42''\<rparr>
     \<in> set (messages (extractConversationContext ''chatgpt'' example_chatgpt_page)) \<and>
   role \<lparr>role = Some ''tool'', content = ''42''\<rparr> = Some ''tool''"
proof -
  have mem: "\<lparr>role = Some ''assistant'', content = ''Hello world''\<rparr>
      \<in> set (messages (extractConversationContext ''claude'' example_claude_page))"
    by (simp add: example_claude_messages)
  from role_and_content_derivation [of example_claude_page "''claude''"] mem
  have c: "role \<lparr>role = Some ''assistant'', content = ''Hello world''\<rparr> = Some ''user'' \<or>
        role \<lparr>role = Some ''assistant'', content = ''Hello world''\<rparr> = Some ''assistant''"
    and "content \<lparr>role = Some ''assistant'', content = ''Hello world''\<rparr> \<noteq> []"
    by blast+
  have mem2: "\<lparr>role = Some ''tool'', content = ''42''\<rparr>
      \<in> set (messages (extractConversationContext ''chatgpt'' example_chatgpt_page))"
    by (simp add: example_chatgpt_messages)
  from role_and_content_derivation [of example_chatgpt_page "''chatgpt''"] mem2
  have g: "role \<lparr>role = Some ''tool'', content = ''42''\<rparr> \<noteq> None"
    and "content \<lparr>role = Some ''tool'', content = ''42''\<rparr> \<noteq> []"
    by blast+
  from mem mem2 c g show ?thesis by simp
qed

text \<open>
  A ChatGPT message element with the role attribute \<open>tool\<close> is given the role
  \<open>tool\<close>, and a Claude message from the sender Moderator is given the role
  \<open>assistant\<close>.
\<close>

theorem role_not_normalized_counterexample:
  "map role (messages (extractConversationContext ''chatgpt'' example_chatgpt_page)) = [Some ''tool''] \<and>
   map role (messages (extractConversationContext ''claude'' example_moderator_page)) = [Some ''assistant'']"
  by (simp add: example_chatgpt_messages example_moderator_messages)

section \<open>The capture flag\<close>

lemma toggle_sets_flag:
  "action req = ''toggle'' \<Longrightarrow> step s (Message req) = (enabled req, [])"
  by (simp add: content_onMessage_def)

lemma step_not_toggle_flag: "\<not> is_toggle e \<Longrightarrow> fst (step s e) = s"
  by (cases e) (simp_all add: is_toggle_def content_onMessage_def)

lemma step_disabled_not_toggle: "\<not> is_toggle e \<Longrightarrow> step False e = (False, [])"
  by (cases e) (simp_all add: is_toggle_def content_onMessage_def observer_callback_disabled)

lemma fst_run_Cons: "fst (run s (e # es)) = fst (run (fst (step s e)) es)"
  by (simp split: prod.splits)

lemma run_not_toggle_flag: "\<not> list_ex is_toggle es \<Longrightarrow> fst (run s es) = s"
proof (induction es arbitrary: s)
  case Nil
  show ?case by simp
next
  case (Cons e es)
  then have e: "fst (step s e) = s" and rest: "fst (run s es) = s"
    by (simp_all add: step_not_toggle_flag)
  then show ?case by (simp only: fst_run_Cons)
qed

lemma run_disabled: "\<not> list_ex is_toggle es \<Longrightarrow> run False es = (False, [])"
proof (induction es)
  case Nil
  show ?case by simp
next
  case (Cons e es)
  then have "step False e = (False, [])" and "run False es = (False, [])"
    by (simp_all add: step_disabled_not_toggle)
  then show ?case by simp
qed

lemma step_flag_change:
  assumes "fst (step s e) \<noteq> s"
  shows "\<exists>r. e = Message r \<and> action r = ''toggle'' \<and> enabled r = (\<not> s)"
proof (cases e)
  case (Message r)
  with assms have "action r = ''toggle''" and "enabled r \<noteq> s"
    by (auto simp: content_onMessage_def split: if_splits)
  with Message show ?thesis by auto
next
  case (Mutations pg ms)
  with assms show ?thesis by simp
qed

text \<open>
  C4. While \<^verbatim>\<open>isCapturing\<close> is false, any run of events without a toggle message
  calls \<^verbatim>\<open>sendToCortex\<close> zero times, also right after a toggle message that disables
  capture. After a toggle message that enables capture, and any further events that are not
  toggle messages, a qualifying batch is extracted and relayed. A step changes the flag only
  when its event is a toggle message.
\<close>

theorem capture_flag_gates_relay:
  "(\<not> list_ex is_toggle es \<longrightarrow> run False es = (False, [])) \<and>
   (action req = ''toggle'' \<and> \<not> enabled req \<and> \<not> list_ex is_toggle es
      \<longrightarrow> run s (Message req # es) = (False, [])) \<and>
   (action req = ''toggle'' \<and> enabled req \<and> \<not> list_ex is_toggle es \<and> qualifying pg ms
      \<longrightarrow> set (snd (step (fst (run s (Message req # es))) (Mutations pg ms)))
            = {extractConversationContext (detectPlatform (hostname pg)) pg}) \<and>
   (fst (step s e) \<noteq> s \<longrightarrow> (\<exists>r. e = Message r \<and> action r = ''toggle'' \<and> enabled r = (\<not> s)))"
proof (intro conjI impI)
  assume "\<not> list_ex is_toggle es"
  then show "run False es = (False, [])" by (rule run_disabled)
next
  assume a: "action req = ''toggle'' \<and> \<not> enabled req \<and> \<not> list_ex is_toggle es"
  then have "step s (Message req) = (False, [])" using toggle_sets_flag [of req s] by simp
  moreover from a have "run False es = (False, [])" by (simp add: run_disabled)
  ultimately show "run s (Message req # es) = (False, [])"
    unfolding run.simps by simp
next
  assume a: "action req = ''toggle'' \<and> enabled req \<and> \<not> list_ex is_toggle es \<and> qualifying pg ms"
  then have "step s (Message req) = (True, [])" using toggle_sets_flag [of req s] by simp
  moreover from a have "fst (run True es) = True" by (simp add: run_not_toggle_flag)
  ultimately have "fst (run s (Message req # es)) = True"
    by (simp only: fst_run_Cons fst_conv)
  then have "snd (step (fst (run s (Message req # es))) (Mutations pg ms)) = observer_callback True pg ms"
    by simp
  with a show "set (snd (step (fst (run s (Message req # es))) (Mutations pg ms)))
      = {extractConversationContext (detectPlatform (hostname pg)) pg}"
    by (simp only: qualifying_relay_set)
next
  assume "fst (step s e) \<noteq> s"
  then show "\<exists>r. e = Message r \<and> action r = ''toggle'' \<and> enabled r = (\<not> s)"
    by (rule step_flag_change)
qed

theorem capture_flag_gates_relay_witness:
  "run False [Mutations example_claude_page example_claude_batch] = (False, []) \<and>
   run True [Message toggle_off, Mutations example_claude_page example_claude_batch] = (False, []) \<and>
   set (snd (step (fst (run False [Message toggle_on, Mutations example_unmarked_page []]))
                  (Mutations example_claude_page example_claude_batch)))
     = {extractConversationContext ''claude'' example_claude_page} \<and>
   fst (step False (Message toggle_on)) = True"
proof -
  have nt: "\<not> list_ex is_toggle [Mutations example_claude_page example_claude_batch]"
    by (simp add: is_toggle_def)
  have off: "action toggle_off = ''toggle'' \<and> \<not> enabled toggle_off \<and>
      \<not> list_ex is_toggle [Mutations example_claude_page example_claude_batch]"
    by (simp add: toggle_off_def is_toggle_def)
  have on: "action toggle_on = ''toggle'' \<and> enabled toggle_on \<and>
      \<not> list_ex is_toggle [Mutations example_unmarked_page []] \<and>
      qualifying example_claude_page example_claude_batch"
    by (simp add: toggle_on_def example_claude_qualifying is_toggle_def)
  have ch: "fst (step False (Message toggle_on)) \<noteq> False"
    by (simp add: content_onMessage_def toggle_on_def)
  have 0: "run False [Mutations example_claude_page example_claude_batch] = (False, [])"
    by (rule capture_flag_gates_relay [THEN conjunct1, THEN mp, OF nt])
  have 1: "run True [Message toggle_off, Mutations example_claude_page example_claude_batch] = (False, [])"
    by (rule capture_flag_gates_relay [THEN conjunct2, THEN conjunct1, THEN mp, OF off])
  have 2: "set (snd (step (fst (run False [Message toggle_on, Mutations example_unmarked_page []]))
      (Mutations example_claude_page example_claude_batch)))
      = {extractConversationContext (detectPlatform (hostname example_claude_page)) example_claude_page}"
    by (rule capture_flag_gates_relay
          [THEN conjunct2, THEN conjunct2, THEN conjunct1, THEN mp, OF on])
  have 3: "\<exists>r. Message toggle_on = Message r \<and> action r = ''toggle'' \<and> enabled r = (\<not> False)"
    by (rule capture_flag_gates_relay
          [THEN conjunct2, THEN conjunct2, THEN conjunct2, THEN mp, OF ch])
  from 3 have 4: "fst (step False (Message toggle_on)) = True"
    by (auto simp: content_onMessage_def)
  from 0 1 2 4 show ?thesis by (simp only: example_claude_platform simp_thms)
qed

section \<open>The relay path\<close>

lemma background_fetch_only_enrichPrompt:
  assumes "snd (background_onMessage req) = Some q"
  shows "action req = ''enrichPrompt'' \<and> req_url q = ''http://127.0.0.1:8000/process_interaction''"
  using assms by (auto simp: background_onMessage_def split: if_splits)

text \<open>
  C5 (as amended). For every snapshot it extracts, the observer in the page context itself
  issues one POST of the snapshot to \<open>http://localhost:5000/ingest\<close>: one per added node
  that is or contains a response marker. It sends no message to the background context. The
  background listener starts a request only for \<open>enrichPrompt\<close>, to
  \<open>/process_interaction\<close>.
\<close>

theorem page_context_posts_snapshots_itself:
  "observer_effects c pg ms =
     map (\<lambda>d. Fetch \<lparr>req_url = ''http://localhost:5000/ingest'', http_method = ''POST'',
                      headers = [(''Content-Type'', ''application/json'')],
                      body = snapshot_json d\<rparr>)
         (observer_callback c pg ms) \<and>
   RuntimeSendMessage r \<notin> set (observer_effects c pg ms) \<and>
   (selectors (detectPlatform (hostname pg)) = Some sel \<longrightarrow>
      length (observer_effects True pg ms) =
        length (filter (\<lambda>n. responseElement sel n \<noteq> None) (concat (map addedNodes ms)))) \<and>
   (snd (background_onMessage req) = Some q \<longrightarrow>
      action req = ''enrichPrompt'' \<and> req_url q = ''http://127.0.0.1:8000/process_interaction'')"
proof (intro conjI impI)
  show "observer_effects c pg ms =
     map (\<lambda>d. Fetch \<lparr>req_url = ''http://localhost:5000/ingest'', http_method = ''POST'',
                      headers = [(''Content-Type'', ''application/json'')],
                      body = snapshot_json d\<rparr>)
         (observer_callback c pg ms)"
    by (simp add: observer_effects_def sendToCortex_fetch_def CORTEX_SERVER_def)
  show "RuntimeSendMessage r \<notin> set (observer_effects c pg ms)"
    by (auto simp: observer_effects_def)
next
  assume "selectors (detectPlatform (hostname pg)) = Some sel"
  then show "length (observer_effects True pg ms) =
        length (filter (\<lambda>n. responseElement sel n \<noteq> None) (concat (map addedNodes ms)))"
    by (simp add: observer_effects_def observer_callback_replicate)
next
  assume a: "snd (background_onMessage req) = Some q"
  then show "action req = ''enrichPrompt''"
    using background_fetch_only_enrichPrompt by blast
  from a show "req_url q = ''http://127.0.0.1:8000/process_interaction''"
    using background_fetch_only_enrichPrompt by blast
qed

theorem page_context_posts_snapshots_itself_witness:
  "length (observer_effects True example_claude_page example_claude_batch) = 1 \<and>
   req_url (the (snd (background_onMessage example_enrich)))
     = ''http://127.0.0.1:8000/process_interaction''"
proof -
  have sel: "selectors (detectPlatform (hostname example_claude_page))
      = Some (AttrEqSel ''data-testid'' ''message-text'')"
    by (simp add: example_claude_platform selectors_def)
  have 1: "length (observer_effects True example_claude_page example_claude_batch) =
      length (filter (\<lambda>n. responseElement (AttrEqSel ''data-testid'' ''message-text'') n \<noteq> None)
                (concat (map addedNodes example_claude_batch)))"
    by (rule page_context_posts_snapshots_itself
          [THEN conjunct2, THEN conjunct2, THEN conjunct1, THEN mp, OF sel])
  have q: "snd (background_onMessage example_enrich) =
      Some \<lparr>req_url = ''http://127.0.0.1:8000/process_interaction'', http_method = ''POST'',
            headers = [(''Content-Type'', ''application/json'')],
            body = JObj [(''text'', JStr ''hello''), (''platform'', JStr ''ChromeExtension_v2'')]\<rparr>"
    by (simp add: background_onMessage_def example_enrich_def)
  have 2: "action example_enrich = ''enrichPrompt'' \<and>
      req_url \<lparr>req_url = ''http://127.0.0.1:8000/process_interaction'', http_method = ''POST'',
            headers = [(''Content-Type'', ''application/json'')],
            body = JObj [(''text'', JStr ''hello''), (''platform'', JStr ''ChromeExtension_v2'')]\<rparr>
        = ''http://127.0.0.1:8000/process_interaction''"
    by (rule page_context_posts_snapshots_itself
          [THEN conjunct2, THEN conjunct2, THEN conjunct2, THEN mp, OF q])
  from 1 have "length (observer_effects True example_claude_page example_claude_batch) = 1"
    by (simp add: example_claude_batch_def responseElement_def querySelector_def querySelectorAll_def)
  with 2 q show ?thesis by simp
qed

text \<open>
  On the page of the end-to-end scenario the only effect of the batch is a \<^verbatim>\<open>fetch\<close>
  issued in the page context.
\<close>

theorem page_context_fetch_counterexample:
  "observer_effects True example_claude_page example_claude_batch =
     [Fetch \<lparr>req_url = ''http://localhost:5000/ingest'', http_method = ''POST'',
             headers = [(''Content-Type'', ''application/json'')],
             body = JObj [(''platform'', JStr ''claude''),
                          (''url'', JStr ''https://claude.ai/chat/xyz789''),
                          (''timestamp'', JStr ''2023-11-14T22:13:20.000Z''),
                          (''conversation_id'', JStr ''conv_1700000000000''),
                          (''messages'', JArr [JObj [(''role'', JStr ''assistant''),
                                                    (''content'', JStr ''Hello world'')]])]\<rparr>]"
  by (simp add: observer_effects_def example_claude_relay example_claude_snapshot
      sendToCortex_fetch_def CORTEX_SERVER_def snapshot_json_def message_json_def)

lemma enrichPrompt_response_cases:
  "enrichPrompt_response NetworkFailure = JObj [(''status'', JStr ''error'')]"
  "enrichPrompt_response (HttpResponse st None) = JObj [(''status'', JStr ''error'')]"
  "enrichPrompt_response (HttpResponse st (Some d)) = JObj [(''status'', JStr ''ok''), (''data'', d)]"
  by (simp_all add: enrichPrompt_response_def)

text \<open>
  C2. The \<open>enrichPrompt\<close> promise chain does not look at \<^verbatim>\<open>response.ok\<close>: a
  response with status 500 and a JSON body is reported as \<open>ok\<close>, where
  \<^verbatim>\<open>sendToCortex\<close> gives up on the same response.
\<close>

theorem enrichPrompt_non_2xx_reports_ok:
  "\<not> response_ok 500 \<and>
   enrichPrompt_response (HttpResponse 500 (Some (JObj [(''error'', JStr ''boom'')])))
     = JObj [(''status'', JStr ''ok''), (''data'', JObj [(''error'', JStr ''boom'')])] \<and>
   sendToCortex_result (HttpResponse 500 (Some (JObj [(''error'', JStr ''boom'')]))) = JNull"
  by (simp add: response_ok_def enrichPrompt_response_def sendToCortex_result_def)

text \<open>
  C6. For the \<open>pingServer\<close> message of the popup the listener returns \<^verbatim>\<open>true\<close>,
  starts no request and never calls \<^verbatim>\<open>sendResponse\<close>.
\<close>

theorem pingServer_never_replies:
  "background_onMessage popup_ping = (True, None) \<and> background_reply popup_ping outcome = None"
  by (simp add: background_onMessage_def background_reply_def popup_ping_def)

text \<open>
  C10. For every \<open>enrichPrompt\<close> request the listener posts to
  \<open>/process_interaction\<close> a body whose \<open>text\<close> is the request's text and whose
  \<open>platform\<close> is the constant \<open>ChromeExtension_v2\<close>; nothing else of the request
  enters the body.
\<close>

theorem enrichPrompt_payload:
  "action req = ''enrichPrompt'' \<Longrightarrow>
     snd (background_onMessage req) =
       Some \<lparr>req_url = ''http://127.0.0.1:8000/process_interaction'', http_method = ''POST'',
             headers = [(''Content-Type'', ''application/json'')],
             body = JObj [(''text'', JStr (req_text req)),
                          (''platform'', JStr ''ChromeExtension_v2'')]\<rparr>"
  by (simp add: background_onMessage_def)

theorem enrichPrompt_payload_witness:
  "snd (background_onMessage example_enrich) =
     Some \<lparr>req_url = ''http://127.0.0.1:8000/process_interaction'', http_method = ''POST'',
           headers = [(''Content-Type'', ''application/json'')],
           body = JObj [(''text'', JStr ''hello''), (''platform'', JStr ''ChromeExtension_v2'')]\<rparr>"
proof -
  have a: "action example_enrich = ''enrichPrompt''" by (simp add: example_enrich_def)
  have t: "req_text example_enrich = ''hello''" by (simp add: example_enrich_def)
  from enrichPrompt_payload [OF a] t show ?thesis by simp
qed

end
